theory Spec2Isabelle
  imports Main "HOL-Library.AList"
begin

section \<open>Python values\<close>

text \<open>
  The plugin (\<^verbatim>\<open>src/main.py\<close>, class \<^verbatim>\<open>WelcomePlugin\<close>) handles values that come out of
  JSON: the payload of an event and the content of \<^verbatim>\<open>group_welcomes.json\<close>.  A Python
  string is a list of code points.  A field of a payload and an entry of the backing
  file is \<^verbatim>\<open>None\<close>, a boolean, an integer or a string; a value is such a scalar, a list
  of them or a dict from strings to them.  A dict keeps its insertion order and is an
  association list.

  Outside the model: floats; containers nested in containers (a payload's nested
  fields, which the plugin never reads, are left out of the payload); the interpreter's
  configurable limit on the length of the text of an integer.
\<close>

type_synonym pystr = "nat list"

abbreviation ascii :: "string \<Rightarrow> pystr" where
  "ascii s \<equiv> map of_char s"

datatype scalar = PNone | PBool bool | PInt int | PStr pystr

datatype pyval = Scalar scalar | PList "scalar list" | PDict "(pystr \<times> scalar) list"

datatype exn = OSError | JSONDecodeError | TypeError | AttributeError | ValueError

subsection \<open>Built-in operations\<close>

text \<open>\<^verbatim>\<open>str.isspace\<close> of one code point, the characters \<^verbatim>\<open>str.strip()\<close> removes.\<close>

definition py_isspace :: "nat \<Rightarrow> bool" where
  "py_isspace c \<longleftrightarrow>
     (9 \<le> c \<and> c \<le> 13) \<or> (28 \<le> c \<and> c \<le> 32) \<or> c = 0x85 \<or> c = 0xA0 \<or> c = 0x1680 \<or>
     (0x2000 \<le> c \<and> c \<le> 0x200A) \<or> c = 0x2028 \<or> c = 0x2029 \<or> c = 0x202F \<or>
     c = 0x205F \<or> c = 0x3000"

definition strip :: "pystr \<Rightarrow> pystr" where
  "strip s = rev (dropWhile py_isspace (rev (dropWhile py_isspace s)))"

text \<open>Truth value of an object, as \<^verbatim>\<open>not x\<close> tests it.\<close>

fun scalar_truthy :: "scalar \<Rightarrow> bool" where
  "scalar_truthy PNone = False"
| "scalar_truthy (PBool b) = b"
| "scalar_truthy (PInt n) = (n \<noteq> 0)"
| "scalar_truthy (PStr s) = (s \<noteq> [])"

fun py_truthy :: "pyval \<Rightarrow> bool" where
  "py_truthy (Scalar x) = scalar_truthy x"
| "py_truthy (PList xs) = (xs \<noteq> [])"
| "py_truthy (PDict d) = (d \<noteq> [])"

text \<open>\<^verbatim>\<open>str(x)\<close>: the decimal digits of an integer, a string unchanged.\<close>

fun digits :: "nat \<Rightarrow> pystr" where
  "digits n = (if n < 10 then [48 + n] else digits (n div 10) @ [48 + n mod 10])"

declare digits.simps [simp del]

fun py_str :: "scalar \<Rightarrow> pystr" where
  "py_str PNone = ascii ''None''"
| "py_str (PBool b) = (if b then ascii ''True'' else ascii ''False'')"
| "py_str (PInt n) = (if n < 0 then 45 # digits (nat (- n)) else digits (nat n))"
| "py_str (PStr s) = s"

text \<open>
  \<^verbatim>\<open>int(x)\<close>.  On a string CPython accepts surrounding whitespace, one sign, and decimal
  digits of any script with single underscores between them; the table holds the zero
  of every run of decimal digits (general category Nd, Unicode 14).
\<close>

definition decimal_zeros :: "nat list" where
  "decimal_zeros =
    [0x30, 0x660, 0x6F0, 0x7C0, 0x966, 0x9E6, 0xA66, 0xAE6, 0xB66, 0xBE6, 0xC66, 0xCE6,
     0xD66, 0xDE6, 0xE50, 0xED0, 0xF20, 0x1040, 0x1090, 0x17E0, 0x1810, 0x1946, 0x19D0,
     0x1A80, 0x1A90, 0x1B50, 0x1BB0, 0x1C40, 0x1C50, 0xA620, 0xA8D0, 0xA900, 0xA9D0,
     0xA9F0, 0xAA50, 0xABF0, 0xFF10, 0x104A0, 0x10D30, 0x11066, 0x110F0, 0x11136,
     0x111D0, 0x112F0, 0x11450, 0x114D0, 0x11650, 0x116C0, 0x11730, 0x118E0, 0x11950,
     0x11C50, 0x11D50, 0x11DA0, 0x16A60, 0x16AC0, 0x16B50, 0x1D7CE, 0x1D7D8, 0x1D7E2,
     0x1D7EC, 0x1D7F6, 0x1E140, 0x1E2F0, 0x1E950, 0x1FBF0]"

definition digit_value :: "nat \<Rightarrow> nat option" where
  "digit_value c =
     (case filter (\<lambda>z. z \<le> c \<and> c < z + 10) decimal_zeros of
        [] \<Rightarrow> None
      | z # _ \<Rightarrow> Some (c - z))"

text \<open>
  Whitespace around the number: below 127 the six characters of C's \<^verbatim>\<open>isspace\<close>, from
  127 on the Unicode whitespace.
\<close>

definition int_space :: "nat \<Rightarrow> bool" where
  "int_space c \<longleftrightarrow> (if c < 127 then (9 \<le> c \<and> c \<le> 13) \<or> c = 32 else py_isspace c)"

text \<open>The digits after the first one; \<open>acc\<close> is the number read so far.\<close>

fun int_digits :: "nat \<Rightarrow> pystr \<Rightarrow> nat option" where
  "int_digits acc [] = Some acc"
| "int_digits acc [c] =
     (case digit_value c of None \<Rightarrow> None | Some v \<Rightarrow> Some (10 * acc + v))"
| "int_digits acc (c # d # ds) =
     (if c = 95 then
        (case digit_value d of None \<Rightarrow> None | Some v \<Rightarrow> int_digits (10 * acc + v) ds)
      else
        (case digit_value c of None \<Rightarrow> None | Some v \<Rightarrow> int_digits (10 * acc + v) (d # ds)))"

definition int_of_str :: "pystr \<Rightarrow> int option" where
  "int_of_str s =
     (let t = rev (dropWhile int_space (rev (dropWhile int_space s)));
          neg = (t \<noteq> [] \<and> hd t = 45);
          ds = (if t \<noteq> [] \<and> (hd t = 45 \<or> hd t = 43) then tl t else t)
      in case ds of
           [] \<Rightarrow> None
         | d # ds' \<Rightarrow>
            (case digit_value d of
               None \<Rightarrow> None
             | Some v \<Rightarrow>
                (case int_digits v ds' of
                   None \<Rightarrow> None
                 | Some n \<Rightarrow> Some (if neg then - int n else int n))))"

fun py_int :: "scalar \<Rightarrow> exn + int" where
  "py_int PNone = Inl TypeError"
| "py_int (PBool b) = Inr (if b then 1 else 0)"
| "py_int (PInt n) = Inr n"
| "py_int (PStr s) = (case int_of_str s of None \<Rightarrow> Inl ValueError | Some n \<Rightarrow> Inr n)"

text \<open>\<^verbatim>\<open>len(x)\<close>: only a string, a list and a dict have a length.\<close>

fun py_len :: "pyval \<Rightarrow> exn + nat" where
  "py_len (Scalar (PStr s)) = Inr (length s)"
| "py_len (Scalar _) = Inl TypeError"
| "py_len (PList xs) = Inr (length xs)"
| "py_len (PDict d) = Inr (length d)"

text \<open>\<^verbatim>\<open>d.get(k, default)\<close> and \<^verbatim>\<open>d.get(k)\<close> on the items of a dict.\<close>

definition dict_get :: "(pystr \<times> scalar) list \<Rightarrow> pystr \<Rightarrow> scalar \<Rightarrow> scalar" where
  "dict_get d k dflt = (case map_of d k of None \<Rightarrow> dflt | Some v \<Rightarrow> v)"

text \<open>
  \<^verbatim>\<open>x.get(k, default)\<close> on any value: only a dict has the method.  \<^verbatim>\<open>x[k] = v\<close> with a
  string key: a dict replaces the entry in place or appends it, a list and a string
  refuse.
\<close>

fun py_get :: "pyval \<Rightarrow> pystr \<Rightarrow> scalar \<Rightarrow> exn + scalar" where
  "py_get (PDict d) k dflt = Inr (dict_get d k dflt)"
| "py_get (PList xs) k dflt = Inl AttributeError"
| "py_get (Scalar x) k dflt = Inl AttributeError"

fun py_setitem :: "pyval \<Rightarrow> pystr \<Rightarrow> scalar \<Rightarrow> exn + pyval" where
  "py_setitem (PDict d) k v = Inr (PDict (AList.update k v d))"
| "py_setitem (PList xs) k v = Inl TypeError"
| "py_setitem (Scalar x) k v = Inl TypeError"

section \<open>The backing file\<close>

text \<open>
  \<^verbatim>\<open>json.dump\<close> and \<^verbatim>\<open>json.load\<close> are the standard library's; the model keeps of a JSON
  text its syntax tree.  An object of a text is a list of pairs in which a key may
  occur twice; \<^verbatim>\<open>json.load\<close> builds the dict by inserting the pairs in order, so a later
  pair replaces the value of an earlier one.
\<close>

datatype json = JValue scalar | JArray "scalar list" | JObject "(pystr \<times> scalar) list"

definition dict_of_pairs :: "(pystr \<times> scalar) list \<Rightarrow> (pystr \<times> scalar) list" where
  "dict_of_pairs ps = foldl (\<lambda>d kv. AList.update (fst kv) (snd kv) d) [] ps"

fun json_load :: "json \<Rightarrow> pyval" where
  "json_load (JValue x) = Scalar x"
| "json_load (JArray xs) = PList xs"
| "json_load (JObject ps) = PDict (dict_of_pairs ps)"

fun json_dump :: "pyval \<Rightarrow> json" where
  "json_dump (Scalar x) = JValue x"
| "json_dump (PList xs) = JArray xs"
| "json_dump (PDict d) = JObject d"

text \<open>
  The file \<^verbatim>\<open>group_welcomes.json\<close> is absent, or its content is not a JSON text (\<open>Corrupt e\<close>:
  decoding or parsing it raises \<open>e\<close>), or it holds a JSON text.
\<close>

datatype backing_file = Absent | Corrupt exn | Document json

text \<open>
  What the file system does when line 53 opens an existing file and line 54 reads it:
  the content is read, or \<^verbatim>\<open>open\<close> or \<^verbatim>\<open>read\<close> raises.
\<close>

datatype read_outcome = Read | Read_fails exn

text \<open>
  What the file system does with one \<^verbatim>\<open>open(..., 'w')\<close> and \<^verbatim>\<open>json.dump\<close>: the text is
  written; or \<^verbatim>\<open>open\<close> raises and the file stays as it was; or the file is opened, which
  empties it, and the write raises (the disk is full, or a string has a code point that
  UTF-8 cannot encode), which leaves a proper prefix of the text.  No proper prefix of
  the text of a dict, a list or a string is a JSON text.
\<close>

datatype write_outcome = Written | Open_fails exn | Write_fails exn

section \<open>The plugin\<close>

datatype log_entry =
    Info_initialized | Error_initialize exn | Info_terminated
  | Info_loaded nat | Error_load exn
  | Debug_saved nat | Error_save exn
  | Info_joined int pystr | Error_join exn
  | Info_set pystr | Error_set exn | Error_view exn

text \<open>
  The state: the two attributes the handlers use, the file at \<^verbatim>\<open>self.data_file\<close>, and what
  was given to \<^verbatim>\<open>logger\<close>.
\<close>

record plugin =
  default_message :: pystr
  group_welcomes :: pyval
  data_file :: backing_file
  logged :: "log_entry list"

definition log_to :: "log_entry \<Rightarrow> plugin \<Rightarrow> plugin" where
  "log_to e self = self\<lparr>logged := logged self @ [e]\<rparr>"

text \<open>
  \<^verbatim>\<open>__init__\<close> (lines 18-30): the configured default message, or the literal of line 23,
  and an empty dict.  The file is whatever is on disk.
\<close>

definition default_default_message :: pystr where
  "default_default_message = [0x6B22, 0x8FCE, 0x65B0, 0x4EBA, 0x7E]"

definition new_plugin :: "pystr option \<Rightarrow> backing_file \<Rightarrow> plugin" where
  "new_plugin config f =
     \<lparr>default_message = (case config of None \<Rightarrow> default_default_message | Some m \<Rightarrow> m),
      group_welcomes = PDict [],
      data_file = f,
      logged = []\<rparr>"

text \<open>
  \<^verbatim>\<open>_load_group_welcomes\<close> (lines 49-60).  Line 54 assigns what \<^verbatim>\<open>json.load\<close> returns, whatever
  its type, and line 55 takes its length; every exception ends in the handler of line 58,
  which logs it and empties the store.
\<close>

definition load_group_welcomes :: "read_outcome \<Rightarrow> plugin \<Rightarrow> plugin" where
  "load_group_welcomes io self =
     (case data_file self of
        Absent \<Rightarrow> self\<lparr>group_welcomes := PDict []\<rparr>
      | Corrupt e \<Rightarrow>
         (case io of
            Read_fails e' \<Rightarrow> log_to (Error_load e') (self\<lparr>group_welcomes := PDict []\<rparr>)
          | Read \<Rightarrow> log_to (Error_load e) (self\<lparr>group_welcomes := PDict []\<rparr>))
      | Document j \<Rightarrow>
         (case io of
            Read_fails e' \<Rightarrow> log_to (Error_load e') (self\<lparr>group_welcomes := PDict []\<rparr>)
          | Read \<Rightarrow>
             (case py_len (json_load j) of
                Inr n \<Rightarrow> log_to (Info_loaded n) (self\<lparr>group_welcomes := json_load j\<rparr>)
              | Inl e \<Rightarrow> log_to (Error_load e) (self\<lparr>group_welcomes := PDict []\<rparr>))))"

text \<open>\<^verbatim>\<open>_save_group_welcomes\<close> (lines 62-69).\<close>

definition save_group_welcomes :: "write_outcome \<Rightarrow> plugin \<Rightarrow> plugin" where
  "save_group_welcomes io self =
     (case io of
        Open_fails e \<Rightarrow> log_to (Error_save e) self
      | Write_fails e \<Rightarrow> log_to (Error_save e) (self\<lparr>data_file := Corrupt JSONDecodeError\<rparr>)
      | Written \<Rightarrow>
         (case py_len (group_welcomes self) of
            Inr n \<Rightarrow>
              log_to (Debug_saved n) (self\<lparr>data_file := Document (json_dump (group_welcomes self))\<rparr>)
          | Inl e \<Rightarrow>
              log_to (Error_save e) (self\<lparr>data_file := Document (json_dump (group_welcomes self))\<rparr>)))"

text \<open>
  \<^verbatim>\<open>initialize\<close> (lines 32-39); \<open>mkdir_ok\<close> tells whether \<^verbatim>\<open>mkdir\<close> returns.  \<^verbatim>\<open>terminate\<close>
  (lines 41-47).
\<close>

definition initialize :: "bool \<Rightarrow> read_outcome \<Rightarrow> plugin \<Rightarrow> plugin" where
  "initialize mkdir_ok io self =
     (if mkdir_ok then log_to Info_initialized (load_group_welcomes io self)
      else log_to (Error_initialize OSError) self)"

definition terminate :: "write_outcome \<Rightarrow> plugin \<Rightarrow> plugin" where
  "terminate io self = log_to Info_terminated (save_group_welcomes io self)"

subsection \<open>Events and replies\<close>

text \<open>
  Of an event the handlers read \<^verbatim>\<open>message_obj.raw_message\<close> (either attribute may be
  missing), \<^verbatim>\<open>get_group_id()\<close>, a string that is empty outside a group, and \<^verbatim>\<open>role\<close>.
\<close>

record message_object =
  raw_message :: "pyval option"

record event =
  message_obj :: "message_object option"
  get_group_id :: pystr
  role :: pystr

text \<open>
  A reply is a chain of components (\<^verbatim>\<open>chain_result\<close>) or a text (\<^verbatim>\<open>plain_result\<close>);
  \<open>Plain_failure p e\<close> is the text \<open>p\<close> followed by \<^verbatim>\<open>str(e)\<close>.
\<close>

datatype component = At int | Plain pystr

datatype result = Chain_result "component list" | Plain_result pystr | Plain_failure pystr exn

text \<open>The literals of lines 114, 119, 124, 131, 136, 155 and 159.\<close>

definition msg_group_only :: pystr where
  "msg_group_only = [0x6B64, 0x547D, 0x4EE4, 0x4EC5, 0x5728, 0x7FA4, 0x804A, 0x4E2D, 0x53EF, 0x7528]"

definition msg_denied :: pystr where
  "msg_denied = [0x62B1, 0x6B49, 0xFF0C, 0x4F60, 0x7684, 0x6743, 0x9650, 0x4E0D, 0x8DB3]"

definition msg_empty :: pystr where
  "msg_empty = [0x6B22, 0x8FCE, 0x8BED, 0x4E0D, 0x80FD, 0x4E3A, 0x7A7A]"

definition msg_set_ok :: pystr where
  "msg_set_ok = [0x5DF2, 0x8BBE, 0x7F6E, 0x672C, 0x7FA4, 0x6B22, 0x8FCE, 0x8BED, 0x3A, 0xA]"

definition msg_set_failed :: pystr where
  "msg_set_failed = [0x8BBE, 0x7F6E, 0x5931, 0x8D25, 0x3A, 0x20]"

definition msg_current :: pystr where
  "msg_current = [0x5F53, 0x524D, 0x6B22, 0x8FCE, 0x8BED, 0x3A, 0xA]"

definition msg_view_failed :: pystr where
  "msg_view_failed = [0x67E5, 0x770B, 0x5931, 0x8D25, 0x3A, 0x20]"

subsection \<open>The handlers\<close>

text \<open>
  The lookup of lines 93 and 154, \<^verbatim>\<open>self.group_welcomes.get(group_id, self.default_message)\<close>.
\<close>

definition get_welcome :: "plugin \<Rightarrow> pystr \<Rightarrow> exn + scalar" where
  "get_welcome self group_id =
     py_get (group_welcomes self) group_id (PStr (default_message self))"

text \<open>
  \<^verbatim>\<open>handle_group_increase\<close> (lines 72-105).  A handler is a generator: the model returns
  the replies it yields and the state it leaves.  Every exception ends in the handler of
  line 104.
\<close>

definition handle_group_increase :: "plugin \<Rightarrow> event \<Rightarrow> result list \<times> plugin" where
  "handle_group_increase self event =
     (case message_obj event of
        None \<Rightarrow> ([], self)
      | Some mobj \<Rightarrow>
         (case raw_message mobj of
            None \<Rightarrow> ([], self)
          | Some raw \<Rightarrow>
             (if \<not> py_truthy raw then ([], self)
              else case raw of
                Scalar x \<Rightarrow> ([], self)
              | PList xs \<Rightarrow> ([], self)
              | PDict d \<Rightarrow>
                 (if map_of d (ascii ''post_type'') = Some (PStr (ascii ''notice'')) \<and>
                     map_of d (ascii ''notice_type'') = Some (PStr (ascii ''group_increase''))
                  then
                    (let group_id = py_str (dict_get d (ascii ''group_id'') (PStr []))
                     in case py_int (dict_get d (ascii ''user_id'') (PInt 0)) of
                          Inl e \<Rightarrow> ([], log_to (Error_join e) self)
                        | Inr user_id \<Rightarrow>
                           (if group_id = [] \<or> user_id = 0 then ([], self)
                            else case get_welcome self group_id of
                                   Inl e \<Rightarrow> ([], log_to (Error_join e) self)
                                 | Inr welcome_msg \<Rightarrow>
                                    ([Chain_result [At user_id, Plain (32 # py_str welcome_msg)]],
                                     log_to (Info_joined user_id group_id) self)))
                  else ([], self)))))"

text \<open>
  \<^verbatim>\<open>set_welcome\<close> (lines 108-136); \<open>io\<close> is what the file system does with the write of
  line 129.
\<close>

definition set_welcome :: "write_outcome \<Rightarrow> plugin \<Rightarrow> event \<Rightarrow> pystr \<Rightarrow> result list \<times> plugin" where
  "set_welcome io self event message =
     (let group_id = get_group_id event
      in if group_id = [] then ([Plain_result msg_group_only], self)
         else if role event \<noteq> ascii ''admin'' then ([Plain_result msg_denied], self)
         else if strip message = [] then ([Plain_result msg_empty], self)
         else case py_setitem (group_welcomes self) group_id (PStr message) of
                Inl e \<Rightarrow> ([Plain_failure msg_set_failed e], log_to (Error_set e) self)
              | Inr m \<Rightarrow>
                 ([Plain_result (msg_set_ok @ message)],
                  log_to (Info_set group_id)
                    (save_group_welcomes io (self\<lparr>group_welcomes := m\<rparr>))))"

text \<open>\<^verbatim>\<open>view_welcome\<close> (lines 139-159).\<close>

definition view_welcome :: "plugin \<Rightarrow> event \<Rightarrow> result list \<times> plugin" where
  "view_welcome self event =
     (let group_id = get_group_id event
      in if group_id = [] then ([Plain_result msg_group_only], self)
         else if role event \<noteq> ascii ''admin'' then ([Plain_result msg_denied], self)
         else case get_welcome self group_id of
                Inl e \<Rightarrow> ([Plain_failure msg_view_failed e], log_to (Error_view e) self)
              | Inr current \<Rightarrow> ([Plain_result (msg_current @ py_str current)], self))"

subsection \<open>Runs\<close>

text \<open>
  What can happen to an installed plugin: the process starts again (\<^verbatim>\<open>__init__\<close>, the file
  stays), a method is called, an event or a command arrives; each read and each write
  ends as the file system decides.  A run starts from the installation, where the file
  does not exist yet, and only \<^verbatim>\<open>_save_group_welcomes\<close> writes the file.
\<close>

datatype action =
    Restart "pystr option" | Initialize bool read_outcome | Terminate write_outcome
  | Load read_outcome | Save write_outcome
  | Join event | Set_welcome write_outcome event pystr | View_welcome event

fun step :: "plugin \<Rightarrow> action \<Rightarrow> plugin" where
  "step self (Restart config) = (new_plugin config (data_file self))\<lparr>logged := logged self\<rparr>"
| "step self (Initialize mkdir_ok io) = initialize mkdir_ok io self"
| "step self (Terminate io) = terminate io self"
| "step self (Load io) = load_group_welcomes io self"
| "step self (Save io) = save_group_welcomes io self"
| "step self (Join event) = snd (handle_group_increase self event)"
| "step self (Set_welcome io event message) = snd (set_welcome io self event message)"
| "step self (View_welcome event) = snd (view_welcome self event)"

definition run :: "action list \<Rightarrow> plugin \<Rightarrow> plugin" where
  "run acts self = foldl step self acts"

definition installed :: "pystr option \<Rightarrow> plugin" where
  "installed config = new_plugin config Absent"

section \<open>Notions of the specification\<close>

text \<open>
  The events the handler welcomes, by its own tests of lines 75-89: a notice of type
  \<^verbatim>\<open>group_increase\<close> whose \<^verbatim>\<open>group_id\<close>, after \<^verbatim>\<open>str\<close>, is not empty and whose \<^verbatim>\<open>user_id\<close>, after
  \<^verbatim>\<open>int\<close>, is not zero; \<open>join_shape\<close> gives the two converted identifiers.  This is wider
  than the shape of section 4.2: \<^verbatim>\<open>str\<close> makes the text \<^verbatim>\<open>None\<close> of a null \<^verbatim>\<open>group_id\<close>, and
  \<^verbatim>\<open>int\<close> makes 1 of a \<^verbatim>\<open>user_id\<close> that is \<^verbatim>\<open>true\<close>.
\<close>

definition join_shape :: "event \<Rightarrow> (pystr \<times> int) option" where
  "join_shape event =
     (case message_obj event of
        None \<Rightarrow> None
      | Some mobj \<Rightarrow>
         (case raw_message mobj of
            Some (PDict d) \<Rightarrow>
              (if map_of d (ascii ''post_type'') = Some (PStr (ascii ''notice'')) \<and>
                  map_of d (ascii ''notice_type'') = Some (PStr (ascii ''group_increase''))
               then
                 (case py_int (dict_get d (ascii ''user_id'') (PInt 0)) of
                    Inl e \<Rightarrow> None
                  | Inr u \<Rightarrow>
                     (if py_str (dict_get d (ascii ''group_id'') (PStr [])) \<noteq> [] \<and> u \<noteq> 0
                      then Some (py_str (dict_get d (ascii ''group_id'') (PStr [])), u)
                      else None))
               else None)
          | _ \<Rightarrow> None))"

text \<open>
  The join shape in the words of section 4.2: a notice of type \<^verbatim>\<open>group_increase\<close> that
  carries a group identifier that is not empty and a member identifier that is not zero.
  A group identifier is a string or an integer, a member identifier is an integer; a
  field that is missing, null or a boolean is no identifier.
\<close>

fun group_identifier :: "scalar option \<Rightarrow> pystr option" where
  "group_identifier (Some (PStr g)) = Some g"
| "group_identifier (Some (PInt n)) = Some (py_str (PInt n))"
| "group_identifier _ = None"

fun member_identifier :: "scalar option \<Rightarrow> int option" where
  "member_identifier (Some (PInt u)) = Some u"
| "member_identifier _ = None"

definition spec_join_shape :: "event \<Rightarrow> (pystr \<times> int) option" where
  "spec_join_shape event =
     (case message_obj event of
        None \<Rightarrow> None
      | Some mobj \<Rightarrow>
         (case raw_message mobj of
            Some (PDict d) \<Rightarrow>
              (if map_of d (ascii ''post_type'') = Some (PStr (ascii ''notice'')) \<and>
                  map_of d (ascii ''notice_type'') = Some (PStr (ascii ''group_increase''))
               then
                 (case group_identifier (map_of d (ascii ''group_id'')) of
                    None \<Rightarrow> None
                  | Some g \<Rightarrow>
                     (case member_identifier (map_of d (ascii ''user_id'')) of
                        None \<Rightarrow> None
                      | Some u \<Rightarrow> (if g \<noteq> [] \<and> u \<noteq> 0 then Some (g, u) else None)))
               else None)
          | _ \<Rightarrow> None))"

text \<open>
  The invariant of section 3: the store is a dict with one entry for a key, and every
  entry is a string that is not empty.  The file, when it holds a text, holds the text
  of such a dict.
\<close>

fun nonempty_text :: "scalar \<Rightarrow> bool" where
  "nonempty_text (PStr s) = (s \<noteq> [])"
| "nonempty_text _ = False"

definition entries_ok :: "(pystr \<times> scalar) list \<Rightarrow> bool" where
  "entries_ok d \<longleftrightarrow> distinct (map fst d) \<and> list_all (\<lambda>kv. nonempty_text (snd kv)) d"

fun store_ok :: "pyval \<Rightarrow> bool" where
  "store_ok (PDict d) = entries_ok d"
| "store_ok _ = False"

fun file_ok :: "backing_file \<Rightarrow> bool" where
  "file_ok (Document (JObject d)) = entries_ok d"
| "file_ok (Document _) = False"
| "file_ok _ = True"

text \<open>The keys of the store and of the file, and whether an action is a command that
  sets the text of a group.\<close>

fun store_keys :: "pyval \<Rightarrow> pystr set" where
  "store_keys (PDict d) = fst ` set d"
| "store_keys _ = {}"

fun file_keys :: "backing_file \<Rightarrow> pystr set" where
  "file_keys (Document (JObject d)) = fst ` set d"
| "file_keys _ = {}"

fun sets_group :: "pystr \<Rightarrow> action \<Rightarrow> bool" where
  "sets_group g (Set_welcome io event message) = (get_group_id event = g)"
| "sets_group g _ = False"

subsection \<open>Events used as examples\<close>

text \<open>A notice that \<open>u\<close> joined group \<open>g\<close>, and a command sent in group \<open>g\<close> with role \<open>r\<close>.\<close>

definition join_notice :: "scalar \<Rightarrow> scalar \<Rightarrow> event" where
  "join_notice g u =
     \<lparr>message_obj = Some \<lparr>raw_message = Some (PDict
        [(ascii ''post_type'', PStr (ascii ''notice'')),
         (ascii ''notice_type'', PStr (ascii ''group_increase'')),
         (ascii ''group_id'', g),
         (ascii ''user_id'', u)])\<rparr>,
      get_group_id = py_str g,
      role = ascii ''member''\<rparr>"

definition command_event :: "pystr \<Rightarrow> pystr \<Rightarrow> event" where
  "command_event g r = \<lparr>message_obj = None, get_group_id = g, role = r\<rparr>"

section \<open>Properties\<close>

subsection \<open>Strings and dicts\<close>

lemma strip_Nil: "strip [] = []"
  by (simp add: strip_def)

lemma strip_nonempty: "strip m \<noteq> [] \<Longrightarrow> m \<noteq> []"
  by (auto simp: strip_def)

lemma replies_differ:
  "msg_group_only \<noteq> msg_denied" "msg_group_only \<noteq> msg_empty" "msg_denied \<noteq> msg_empty"
  "msg_group_only \<noteq> msg_set_ok @ m" "msg_denied \<noteq> msg_set_ok @ m" "msg_empty \<noteq> msg_set_ok @ m"
  by (simp_all add: msg_group_only_def msg_denied_def msg_empty_def msg_set_ok_def)

lemma update_fresh: "k \<notin> fst ` set al \<Longrightarrow> AList.update k v al = al @ [(k, v)]"
  by (induction al) auto

lemma insert_pairs_distinct:
  "distinct (map fst (acc @ ps)) \<Longrightarrow>
   foldl (\<lambda>d kv. AList.update (fst kv) (snd kv) d) acc ps = acc @ ps"
proof (induction ps arbitrary: acc)
  case Nil
  then show ?case by simp
next
  case (Cons p ps)
  from Cons.prems have fresh: "fst p \<notin> fst ` set acc" by auto
  have "AList.update (fst p) (snd p) acc = acc @ [p]"
    using update_fresh [OF fresh] by simp
  moreover from Cons.prems have "distinct (map fst ((acc @ [p]) @ ps))" by simp
  ultimately show ?case using Cons.IH [of "acc @ [p]"] by simp
qed

lemma dict_of_pairs_distinct: "distinct (map fst d) \<Longrightarrow> dict_of_pairs d = d"
  using insert_pairs_distinct [of "[]" d] by (simp add: dict_of_pairs_def)

lemma insert_pairs_keys:
  "fst ` set (foldl (\<lambda>d kv. AList.update (fst kv) (snd kv) d) acc ps) = fst ` set acc \<union> fst ` set ps"
  by (induction ps arbitrary: acc) (auto simp: dom_update)

lemma dict_of_pairs_keys: "fst ` set (dict_of_pairs ps) = fst ` set ps"
  by (simp add: dict_of_pairs_def insert_pairs_keys)

lemma set_update_subset: "set (AList.update k v d) \<subseteq> insert (k, v) (set d)"
  by (induction d) auto

lemma entries_ok_update:
  assumes "entries_ok d" and "s \<noteq> []"
  shows "entries_ok (AList.update k (PStr s) d)"
proof -
  from assms have "distinct (map fst (AList.update k (PStr s) d))"
    by (simp add: entries_ok_def distinct_update)
  moreover from assms set_update_subset [of k "PStr s" d]
  have "list_all (\<lambda>kv. nonempty_text (snd kv)) (AList.update k (PStr s) d)"
    by (auto simp: entries_ok_def list_all_iff)
  ultimately show ?thesis by (simp add: entries_ok_def)
qed

lemma entries_ok_lookup:
  assumes "entries_ok d" and "map_of d g = Some v"
  shows "\<exists>s. v = PStr s \<and> s \<noteq> []"
proof -
  from assms(2) have "(g, v) \<in> set d" by (rule map_of_SomeD)
  with assms(1) have "nonempty_text v" by (auto simp: entries_ok_def list_all_iff)
  then show ?thesis by (cases v) auto
qed

lemma dict_get_update: "dict_get (AList.update k v d) k dflt = v"
  by (simp add: dict_get_def update_conv')

subsection \<open>What each operation leaves alone\<close>

lemma log_to_fields [simp]:
  "group_welcomes (log_to e st) = group_welcomes st"
  "data_file (log_to e st) = data_file st"
  "default_message (log_to e st) = default_message st"
  "logged (log_to e st) = logged st @ [e]"
  by (simp_all add: log_to_def)

lemma load_frame:
  "data_file (load_group_welcomes io st) = data_file st"
  "default_message (load_group_welcomes io st) = default_message st"
  by (simp_all add: load_group_welcomes_def
        split: backing_file.splits read_outcome.splits sum.splits)

lemma save_frame:
  "group_welcomes (save_group_welcomes io st) = group_welcomes st"
  "default_message (save_group_welcomes io st) = default_message st"
  by (simp_all add: save_group_welcomes_def split: write_outcome.splits sum.splits)

lemma join_frame:
  "group_welcomes (snd (handle_group_increase st ev)) = group_welcomes st"
  "data_file (snd (handle_group_increase st ev)) = data_file st"
  "default_message (snd (handle_group_increase st ev)) = default_message st"
  by (simp_all add: handle_group_increase_def Let_def
        split: option.splits pyval.splits sum.splits)

lemma view_frame:
  "group_welcomes (snd (view_welcome st ev)) = group_welcomes st"
  "data_file (snd (view_welcome st ev)) = data_file st"
  "default_message (snd (view_welcome st ev)) = default_message st"
  by (simp_all add: view_welcome_def Let_def split: sum.splits)

lemma set_welcome_rejects:
  "\<not> (get_group_id ev \<noteq> [] \<and> role ev = ascii ''admin'' \<and> strip m \<noteq> []) \<Longrightarrow>
   snd (set_welcome io st ev m) = st"
  by (auto simp: set_welcome_def Let_def)

lemma set_welcome_accepts:
  assumes "get_group_id ev \<noteq> []" and "role ev = ascii ''admin''" and "strip m \<noteq> []"
    and "group_welcomes st = PDict d"
  shows "set_welcome io st ev m =
           ([Plain_result (msg_set_ok @ m)],
            log_to (Info_set (get_group_id ev))
              (save_group_welcomes io
                (st\<lparr>group_welcomes := PDict (AList.update (get_group_id ev) (PStr m) d)\<rparr>)))"
  using assms by (simp add: set_welcome_def Let_def)

lemma get_welcome_after_set:
  assumes "get_group_id ev \<noteq> []" and "role ev = ascii ''admin''" and "strip m \<noteq> []"
    and "group_welcomes st = PDict d"
  shows "get_welcome (snd (set_welcome io st ev m)) (get_group_id ev) = Inr (PStr m)"
  using assms
  by (simp add: set_welcome_accepts get_welcome_def save_frame dict_get_update)

lemma get_welcome_absent:
  "group_welcomes st = PDict d \<Longrightarrow> g \<notin> fst ` set d \<Longrightarrow>
   get_welcome st g = Inr (PStr (default_message st))"
proof -
  assume d: "group_welcomes st = PDict d" and "g \<notin> fst ` set d"
  then have "map_of d g = None" by (simp add: map_of_eq_None_iff)
  with d show ?thesis by (simp add: get_welcome_def dict_get_def)
qed

lemma join_other:
  assumes "join_shape ev = None"
  shows "fst (handle_group_increase st ev) = [] \<and>
         (snd (handle_group_increase st ev) = st \<or>
          (\<exists>e. snd (handle_group_increase st ev) = log_to (Error_join e) st))"
  using assms
  by (auto simp: handle_group_increase_def join_shape_def Let_def
        split: option.splits pyval.splits sum.splits if_splits)

lemma join_match:
  assumes "join_shape ev = Some (g, u)" and "get_welcome st g = Inr w"
  shows "handle_group_increase st ev =
           ([Chain_result [At u, Plain (32 # py_str w)]], log_to (Info_joined u g) st)"
  using assms
  by (auto simp: handle_group_increase_def join_shape_def Let_def
        split: option.splits pyval.splits sum.splits if_splits)

text \<open>An event of the shape of section 4.2 passes the tests of the handler.\<close>

lemma spec_shape_welcomed:
  assumes "spec_join_shape ev = Some (g, u)"
  shows "join_shape ev = Some (g, u)"
proof -
  from assms obtain mobj d where ev: "message_obj ev = Some mobj" "raw_message mobj = Some (PDict d)"
    by (auto simp: spec_join_shape_def split: option.splits pyval.splits)
  with assms have types:
    "map_of d (ascii ''post_type'') = Some (PStr (ascii ''notice''))"
    "map_of d (ascii ''notice_type'') = Some (PStr (ascii ''group_increase''))"
    by (auto simp: spec_join_shape_def split: if_splits)
  with assms ev have ids:
    "group_identifier (map_of d (ascii ''group_id'')) = Some g"
    "member_identifier (map_of d (ascii ''user_id'')) = Some u" "g \<noteq> []" "u \<noteq> 0"
    by (auto simp: spec_join_shape_def split: option.splits if_splits)
  from ids(2) have u: "map_of d (ascii ''user_id'') = Some (PInt u)"
    by (cases "map_of d (ascii ''user_id'')" rule: member_identifier.cases) auto
  from ids(1) have g: "py_str (dict_get d (ascii ''group_id'') (PStr [])) = g"
    by (cases "map_of d (ascii ''group_id'')" rule: group_identifier.cases)
       (auto simp: dict_get_def)
  from ev types u g ids(3,4) show ?thesis
    by (simp add: join_shape_def dict_get_def)
qed

lemma not_welcomed_not_spec_shape: "join_shape ev = None \<Longrightarrow> spec_join_shape ev = None"
  using spec_shape_welcomed [of ev] by (cases "spec_join_shape ev") auto

subsection \<open>The invariant of the store and of the file\<close>

text \<open>
  Every operation keeps the store a dict of texts that are not empty, and the file, when
  it holds a text, the text of such a dict; so does every run.
\<close>

lemma load_ok:
  assumes "file_ok (data_file st)"
  shows "store_ok (group_welcomes (load_group_welcomes io st))"
proof (cases "data_file st")
  case Absent
  then show ?thesis by (simp add: load_group_welcomes_def entries_ok_def)
next
  case (Corrupt e)
  then show ?thesis by (cases io) (simp_all add: load_group_welcomes_def entries_ok_def)
next
  case (Document j)
  with assms obtain d where j: "j = JObject d" and d: "entries_ok d"
    by (cases j) auto
  from d have "dict_of_pairs d = d"
    by (simp add: entries_ok_def dict_of_pairs_distinct)
  with Document j d show ?thesis
    by (cases io) (simp_all add: load_group_welcomes_def entries_ok_def)
qed

lemma save_ok:
  "store_ok (group_welcomes st) \<Longrightarrow> file_ok (data_file st) \<Longrightarrow>
   file_ok (data_file (save_group_welcomes io st))"
  by (cases io; cases "group_welcomes st") (simp_all add: save_group_welcomes_def)

lemma set_welcome_ok:
  assumes "store_ok (group_welcomes st)" and "file_ok (data_file st)"
  shows "store_ok (group_welcomes (snd (set_welcome io st ev m))) \<and>
         file_ok (data_file (snd (set_welcome io st ev m)))"
proof (cases "get_group_id ev \<noteq> [] \<and> role ev = ascii ''admin'' \<and> strip m \<noteq> []")
  case False
  then have "snd (set_welcome io st ev m) = st" by (rule set_welcome_rejects)
  with assms show ?thesis by simp
next
  case True
  from assms obtain d where d: "group_welcomes st = PDict d" "entries_ok d"
    by (cases "group_welcomes st") auto
  let ?st = "st\<lparr>group_welcomes := PDict (AList.update (get_group_id ev) (PStr m) d)\<rparr>"
  from True have "m \<noteq> []" by (simp add: strip_nonempty)
  with d have ok: "store_ok (group_welcomes ?st)" by (simp add: entries_ok_update)
  moreover from assms have "file_ok (data_file ?st)" by simp
  ultimately have "file_ok (data_file (save_group_welcomes io ?st))" by (rule save_ok)
  with ok True d show ?thesis by (simp add: set_welcome_accepts save_frame)
qed

lemma step_ok:
  assumes "store_ok (group_welcomes st)" and "file_ok (data_file st)"
  shows "store_ok (group_welcomes (step st a)) \<and> file_ok (data_file (step st a))"
proof (cases a)
  case (Restart config)
  with assms show ?thesis by (simp add: new_plugin_def entries_ok_def)
next
  case (Initialize mkdir_ok io)
  with assms show ?thesis by (simp add: initialize_def load_ok load_frame)
next
  case (Terminate io)
  with assms show ?thesis by (simp add: terminate_def save_ok save_frame)
next
  case (Load io)
  with assms show ?thesis by (simp add: load_ok load_frame)
next
  case (Save io)
  with assms show ?thesis by (simp add: save_ok save_frame)
next
  case (Join ev)
  with assms show ?thesis by (simp add: join_frame)
next
  case (Set_welcome io ev m)
  with assms show ?thesis by (simp add: set_welcome_ok)
next
  case (View_welcome ev)
  with assms show ?thesis by (simp add: view_frame)
qed

lemma run_ok:
  "store_ok (group_welcomes st) \<Longrightarrow> file_ok (data_file st) \<Longrightarrow>
   store_ok (group_welcomes (run acts st)) \<and> file_ok (data_file (run acts st))"
  unfolding run_def
proof (induction acts arbitrary: st)
  case Nil
  then show ?case by simp
next
  case (Cons a acts)
  from step_ok [OF Cons.prems] Cons.IH [of "step st a"] show ?case by simp
qed

lemma installed_ok:
  "store_ok (group_welcomes (run acts (installed config))) \<and>
   file_ok (data_file (run acts (installed config)))"
  by (rule run_ok) (simp_all add: installed_def new_plugin_def entries_ok_def)

subsection \<open>Groups that no command has set\<close>

text \<open>
  A key that is neither in the store nor in the file gets there only by a command that
  sets the text of that group.
\<close>

lemma load_keys:
  assumes "g \<notin> file_keys (data_file st)"
  shows "g \<notin> store_keys (group_welcomes (load_group_welcomes io st))"
proof (cases "data_file st")
  case Absent
  then show ?thesis by (simp add: load_group_welcomes_def)
next
  case (Corrupt e)
  then show ?thesis by (cases io) (simp_all add: load_group_welcomes_def)
next
  case (Document j)
  with assms show ?thesis
    by (cases j; cases io)
       (auto simp: load_group_welcomes_def dict_of_pairs_keys split: sum.splits)
qed

lemma save_keys:
  assumes "g \<notin> store_keys (group_welcomes st)" and "g \<notin> file_keys (data_file st)"
  shows "g \<notin> file_keys (data_file (save_group_welcomes io st))"
  using assms
  by (cases io; cases "group_welcomes st")
     (auto simp: save_group_welcomes_def split: sum.splits)

lemma set_welcome_keys:
  assumes "get_group_id ev \<noteq> g"
    and "g \<notin> store_keys (group_welcomes st)" and "g \<notin> file_keys (data_file st)"
  shows "g \<notin> store_keys (group_welcomes (snd (set_welcome io st ev m))) \<and>
         g \<notin> file_keys (data_file (snd (set_welcome io st ev m)))"
proof (cases "get_group_id ev \<noteq> [] \<and> role ev = ascii ''admin'' \<and> strip m \<noteq> []")
  case False
  then have "snd (set_welcome io st ev m) = st" by (rule set_welcome_rejects)
  with assms show ?thesis by simp
next
  case True
  show ?thesis
  proof (cases "group_welcomes st")
    case (PDict d)
    let ?st = "st\<lparr>group_welcomes := PDict (AList.update (get_group_id ev) (PStr m) d)\<rparr>"
    from assms PDict have s: "g \<notin> store_keys (group_welcomes ?st)"
      by (auto simp: dom_update)
    moreover from assms have "g \<notin> file_keys (data_file ?st)" by simp
    ultimately have "g \<notin> file_keys (data_file (save_group_welcomes io ?st))"
      by (rule save_keys)
    with s True PDict show ?thesis by (simp add: set_welcome_accepts save_frame)
  next
    case (Scalar x)
    with assms True show ?thesis by (simp add: set_welcome_def)
  next
    case (PList xs)
    with assms True show ?thesis by (simp add: set_welcome_def)
  qed
qed

lemma step_keys:
  assumes "\<not> sets_group g a"
    and "g \<notin> store_keys (group_welcomes st)" and "g \<notin> file_keys (data_file st)"
  shows "g \<notin> store_keys (group_welcomes (step st a)) \<and> g \<notin> file_keys (data_file (step st a))"
proof (cases a)
  case (Restart config)
  with assms show ?thesis by (simp add: new_plugin_def)
next
  case (Initialize mkdir_ok io)
  with assms show ?thesis by (simp add: initialize_def load_keys load_frame)
next
  case (Terminate io)
  with assms show ?thesis by (simp add: terminate_def save_keys save_frame)
next
  case (Load io)
  with assms show ?thesis by (simp add: load_keys load_frame)
next
  case (Save io)
  with assms show ?thesis by (simp add: save_keys save_frame)
next
  case (Join ev)
  with assms show ?thesis by (simp add: join_frame)
next
  case (Set_welcome io ev m)
  with assms show ?thesis by (simp add: set_welcome_keys)
next
  case (View_welcome ev)
  with assms show ?thesis by (simp add: view_frame)
qed

lemma run_keys:
  assumes "\<forall>a\<in>set acts. \<not> sets_group g a"
    and "g \<notin> store_keys (group_welcomes st)" and "g \<notin> file_keys (data_file st)"
  shows "g \<notin> store_keys (group_welcomes (run acts st)) \<and> g \<notin> file_keys (data_file (run acts st))"
  using assms unfolding run_def
proof (induction acts arbitrary: st)
  case Nil
  then show ?case by simp
next
  case (Cons a acts)
  from Cons.prems have "\<not> sets_group g a" by simp
  from step_keys [OF this Cons.prems(2,3)] Cons.prems(1) Cons.IH [of "step st a"]
  show ?case by simp
qed

subsection \<open>Evaluating the examples\<close>

lemmas run_eval =
  run_def installed_def new_plugin_def initialize_def terminate_def load_group_welcomes_def
  save_group_welcomes_def log_to_def set_welcome_def view_welcome_def command_event_def
  strip_def py_isspace_def Let_def dict_of_pairs_def

lemmas join_eval =
  join_notice_def join_shape_def handle_group_increase_def get_welcome_def dict_get_def
  digits.simps

section \<open>The claims\<close>

subsection \<open>The store\<close>

text \<open>
  C1.  When \<^verbatim>\<open>set_welcome\<close> succeeds, that is, answers with the confirmation of line 131, the
  lookup for the group of the command returns the text as it was given, not stripped,
  whatever became of the write to the file.
\<close>

theorem set_then_get:
  assumes "set_welcome io self event message = ([Plain_result (msg_set_ok @ message)], self')"
  shows "get_welcome self' (get_group_id event) = Inr (PStr message)"
proof -
  from assms have gates:
    "get_group_id event \<noteq> []" "role event = ascii ''admin''" "strip message \<noteq> []"
    by (auto simp: set_welcome_def Let_def replies_differ split: if_splits)
  with assms obtain d where d: "group_welcomes self = PDict d"
    by (cases "group_welcomes self") (auto simp: set_welcome_def Let_def)
  from assms have "self' = snd (set_welcome io self event message)" by simp
  with get_welcome_after_set [OF gates d, of io] show ?thesis by simp
qed

theorem set_then_get_witness:
  "set_welcome (Open_fails OSError) (installed None)
       (command_event (ascii ''100'') (ascii ''admin'')) (ascii '' Hi there '')
     = ([Plain_result (msg_set_ok @ ascii '' Hi there '')],
        \<lparr>default_message = default_default_message,
         group_welcomes = PDict [(ascii ''100'', PStr (ascii '' Hi there ''))],
         data_file = Absent,
         logged = [Error_save OSError, Info_set (ascii ''100'')]\<rparr>) \<and>
   get_welcome
      \<lparr>default_message = default_default_message,
       group_welcomes = PDict [(ascii ''100'', PStr (ascii '' Hi there ''))],
       data_file = Absent,
       logged = [Error_save OSError, Info_set (ascii ''100'')]\<rparr>
      (ascii ''100'') = Inr (PStr (ascii '' Hi there ''))"
proof -
  have run: "set_welcome (Open_fails OSError) (installed None)
       (command_event (ascii ''100'') (ascii ''admin'')) (ascii '' Hi there '')
     = ([Plain_result (msg_set_ok @ ascii '' Hi there '')],
        \<lparr>default_message = default_default_message,
         group_welcomes = PDict [(ascii ''100'', PStr (ascii '' Hi there ''))],
         data_file = Absent,
         logged = [Error_save OSError, Info_set (ascii ''100'')]\<rparr>)"
    by (simp add: set_welcome_def command_event_def installed_def new_plugin_def strip_def
          py_isspace_def save_group_welcomes_def log_to_def Let_def)
  from set_then_get [OF run] run show ?thesis by (simp add: command_event_def)
qed

subsection \<open>The join handler\<close>

text \<open>
  C2.  In every state of a run, an event of the join shape gets exactly one reply: the
  mention of the member who joined, and a text made of one space and the text the lookup
  returns for the group.  The examples are the two scenarios of section 8.
\<close>

theorem join_reply:
  assumes "self = run acts (installed config)" and "join_shape event = Some (g, u)"
  shows "\<exists>w. get_welcome self g = Inr (PStr w) \<and>
           fst (handle_group_increase self event) = [Chain_result [At u, Plain (32 # w)]]"
proof -
  from installed_ok [of acts config] assms(1) obtain d
    where d: "group_welcomes self = PDict d" and ok: "entries_ok d"
    by (cases "group_welcomes self") auto
  have "\<exists>w. dict_get d g (PStr (default_message self)) = PStr w"
  proof (cases "map_of d g")
    case None
    then show ?thesis by (simp add: dict_get_def)
  next
    case (Some v)
    with entries_ok_lookup [OF ok Some] show ?thesis by (auto simp: dict_get_def)
  qed
  then obtain w where w: "get_welcome self g = Inr (PStr w)"
    using d by (auto simp: get_welcome_def)
  from join_match [OF assms(2) w] w show ?thesis by simp
qed

theorem join_reply_witness:
  "join_shape (join_notice (PInt 100) (PInt 12345)) = Some (ascii ''100'', 12345) \<and>
   fst (handle_group_increase (run [Initialize True Read] (installed (Some (ascii ''Welcome!''))))
          (join_notice (PInt 100) (PInt 12345)))
     = [Chain_result [At 12345, Plain (ascii '' Welcome!'')]] \<and>
   fst (handle_group_increase
          (run [Initialize True Read,
                Set_welcome Written (command_event (ascii ''100'') (ascii ''admin'')) (ascii ''Hi there'')]
             (installed (Some (ascii ''Welcome!''))))
          (join_notice (PInt 100) (PInt 12345)))
     = [Chain_result [At 12345, Plain (ascii '' Hi there'')]]"
proof -
  let ?fresh = "[Initialize True Read]"
  let ?set = "[Initialize True Read,
      Set_welcome Written (command_event (ascii ''100'') (ascii ''admin'')) (ascii ''Hi there'')]"
  have j: "join_shape (join_notice (PInt 100) (PInt 12345)) = Some (ascii ''100'', 12345)"
    by (simp add: join_eval)
  have a: "get_welcome (run ?fresh (installed (Some (ascii ''Welcome!'')))) (ascii ''100'')
      = Inr (PStr (ascii ''Welcome!''))"
    by (simp add: run_eval join_eval)
  have b: "get_welcome (run ?set (installed (Some (ascii ''Welcome!'')))) (ascii ''100'')
      = Inr (PStr (ascii ''Hi there''))"
    by (simp add: run_eval join_eval)
  from join_reply [OF refl j, of ?fresh "Some (ascii ''Welcome!'')"]
       join_reply [OF refl j, of ?set "Some (ascii ''Welcome!'')"] j a b
  show ?thesis by simp
qed

subsection \<open>Validation of the text\<close>

text \<open>
  C3.  A text that is empty once stripped is never stored: the command answers with one
  plain text, the text of line 124 when the caller passed the two gates, nothing is
  logged and the state is the same, file included.
\<close>

theorem blank_text_rejected:
  assumes "strip message = []"
  shows "set_welcome io self event message =
           ([Plain_result
              (if get_group_id event = [] then msg_group_only
               else if role event \<noteq> ascii ''admin'' then msg_denied
               else msg_empty)],
            self)"
  using assms by (simp add: set_welcome_def)

theorem blank_text_rejected_witness:
  "strip [] = [] \<and> strip (ascii ''   '') = [] \<and>
   set_welcome Written (installed None) (command_event (ascii ''100'') (ascii ''admin'')) []
     = ([Plain_result msg_empty], installed None) \<and>
   set_welcome Written (installed None) (command_event (ascii ''100'') (ascii ''admin'')) (ascii ''   '')
     = ([Plain_result msg_empty], installed None)"
proof -
  have e: "strip [] = []" and b: "strip (ascii ''   '') = []"
    by (simp_all add: strip_def py_isspace_def)
  show ?thesis
    using e b
      blank_text_rejected [OF e, of Written "installed None" "command_event (ascii ''100'') (ascii ''admin'')"]
      blank_text_rejected [OF b, of Written "installed None" "command_event (ascii ''100'') (ascii ''admin'')"]
    by (simp add: command_event_def)
qed

subsection \<open>Saving and loading\<close>

text \<open>
  C4, as amended.  In every state of a run, a save whose write succeeds followed by a load
  whose read succeeds gives back the same store.
\<close>

theorem save_load_roundtrip:
  assumes "self = run acts (installed config)"
  shows "group_welcomes (load_group_welcomes Read (save_group_welcomes Written self))
           = group_welcomes self"
proof -
  from installed_ok [of acts config] assms obtain d
    where d: "group_welcomes self = PDict d" and ok: "entries_ok d"
    by (cases "group_welcomes self") auto
  from ok have "dict_of_pairs d = d" by (simp add: entries_ok_def dict_of_pairs_distinct)
  with d show ?thesis by (simp add: save_group_welcomes_def load_group_welcomes_def)
qed

theorem save_load_roundtrip_witness:
  "group_welcomes
     (load_group_welcomes Read (save_group_welcomes Written
        (run [Set_welcome (Open_fails OSError) (command_event (ascii ''100'') (ascii ''admin'')) (ascii ''Hi'')]
           (installed None))))
     = PDict [(ascii ''100'', PStr (ascii ''Hi''))]"
proof -
  let ?acts = "[Set_welcome (Open_fails OSError)
      (command_event (ascii ''100'') (ascii ''admin'')) (ascii ''Hi'')]"
  have e: "group_welcomes (run ?acts (installed None)) = PDict [(ascii ''100'', PStr (ascii ''Hi''))]"
    by (simp add: run_eval)
  from save_load_roundtrip [OF refl, of ?acts None] e show ?thesis by simp
qed

text \<open>
  C4 as stated does not hold: \<^verbatim>\<open>_save_group_welcomes\<close> swallows a failed write (line 68).
  After a command set a text while the file could not be opened, a save that fails in
  the same way leaves no file, and the load empties the store.
\<close>

theorem save_load_counterexample:
  "group_welcomes
     (load_group_welcomes Read (save_group_welcomes (Open_fails OSError)
        (run [Set_welcome (Open_fails OSError) (command_event (ascii ''100'') (ascii ''admin'')) (ascii ''Hi'')]
           (installed None))))
     \<noteq> group_welcomes
        (run [Set_welcome (Open_fails OSError) (command_event (ascii ''100'') (ascii ''admin'')) (ascii ''Hi'')]
           (installed None))"
  by (simp add: run_eval)

text \<open>
  C5, as amended.  \<^verbatim>\<open>_load_group_welcomes\<close> returns in every case and leaves the file alone.
  An absent file empties the store and logs nothing.  A file that cannot be read, a file
  whose content is not JSON, and a JSON text whose value has no length (\<^verbatim>\<open>null\<close>, a
  boolean, a number) empty the store and log the error.  Every other JSON text replaces
  the store by its value as it is: a string, an array, and an object whatever the type of
  its entries.
\<close>

theorem load_outcomes:
  "data_file (load_group_welcomes io self) = data_file self \<and>
   (data_file self = Absent \<longrightarrow>
      group_welcomes (load_group_welcomes io self) = PDict [] \<and>
      logged (load_group_welcomes io self) = logged self) \<and>
   (\<forall>e. data_file self \<noteq> Absent \<and> io = Read_fails e \<longrightarrow>
      group_welcomes (load_group_welcomes io self) = PDict [] \<and>
      logged (load_group_welcomes io self) = logged self @ [Error_load e]) \<and>
   (\<forall>e. data_file self = Corrupt e \<and> io = Read \<longrightarrow>
      group_welcomes (load_group_welcomes io self) = PDict [] \<and>
      logged (load_group_welcomes io self) = logged self @ [Error_load e]) \<and>
   (\<forall>x. data_file self = Document (JValue x) \<and> (\<forall>s. x \<noteq> PStr s) \<and> io = Read \<longrightarrow>
      group_welcomes (load_group_welcomes io self) = PDict [] \<and>
      logged (load_group_welcomes io self) = logged self @ [Error_load TypeError]) \<and>
   (\<forall>s. data_file self = Document (JValue (PStr s)) \<and> io = Read \<longrightarrow>
      group_welcomes (load_group_welcomes io self) = Scalar (PStr s) \<and>
      logged (load_group_welcomes io self) = logged self @ [Info_loaded (length s)]) \<and>
   (\<forall>xs. data_file self = Document (JArray xs) \<and> io = Read \<longrightarrow>
      group_welcomes (load_group_welcomes io self) = PList xs \<and>
      logged (load_group_welcomes io self) = logged self @ [Info_loaded (length xs)]) \<and>
   (\<forall>ps. data_file self = Document (JObject ps) \<and> io = Read \<longrightarrow>
      group_welcomes (load_group_welcomes io self) = PDict (dict_of_pairs ps) \<and>
      logged (load_group_welcomes io self)
        = logged self @ [Info_loaded (length (dict_of_pairs ps))])"
proof -
  have absent: "group_welcomes (load_group_welcomes io self) = PDict [] \<and>
        logged (load_group_welcomes io self) = logged self"
    if "data_file self = Absent"
    using that by (simp add: load_group_welcomes_def)
  have unread: "group_welcomes (load_group_welcomes io self) = PDict [] \<and>
        logged (load_group_welcomes io self) = logged self @ [Error_load e]"
    if "data_file self \<noteq> Absent" and "io = Read_fails e" for e
    using that by (cases "data_file self") (simp_all add: load_group_welcomes_def)
  have corrupt: "group_welcomes (load_group_welcomes io self) = PDict [] \<and>
        logged (load_group_welcomes io self) = logged self @ [Error_load e]"
    if "data_file self = Corrupt e" and "io = Read" for e
    using that by (simp add: load_group_welcomes_def)
  have unsized: "group_welcomes (load_group_welcomes io self) = PDict [] \<and>
        logged (load_group_welcomes io self) = logged self @ [Error_load TypeError]"
    if "data_file self = Document (JValue x)" and "\<forall>s. x \<noteq> PStr s" and "io = Read" for x
    using that by (cases x) (simp_all add: load_group_welcomes_def)
  have str: "group_welcomes (load_group_welcomes io self) = Scalar (PStr s) \<and>
        logged (load_group_welcomes io self) = logged self @ [Info_loaded (length s)]"
    if "data_file self = Document (JValue (PStr s))" and "io = Read" for s
    using that by (simp add: load_group_welcomes_def)
  have array: "group_welcomes (load_group_welcomes io self) = PList xs \<and>
        logged (load_group_welcomes io self) = logged self @ [Info_loaded (length xs)]"
    if "data_file self = Document (JArray xs)" and "io = Read" for xs
    using that by (simp add: load_group_welcomes_def)
  have object: "group_welcomes (load_group_welcomes io self) = PDict (dict_of_pairs ps) \<and>
        logged (load_group_welcomes io self)
          = logged self @ [Info_loaded (length (dict_of_pairs ps))]"
    if "data_file self = Document (JObject ps)" and "io = Read" for ps
    using that by (simp add: load_group_welcomes_def)
  from absent unread corrupt unsized str array object load_frame(1) [of io self]
  show ?thesis by blast
qed

theorem load_outcomes_witness:
  "group_welcomes (load_group_welcomes Read (new_plugin None Absent)) = PDict [] \<and>
   logged (load_group_welcomes Read (new_plugin None Absent)) = [] \<and>
   group_welcomes (load_group_welcomes Read (new_plugin None (Corrupt JSONDecodeError))) = PDict [] \<and>
   logged (load_group_welcomes Read (new_plugin None (Corrupt JSONDecodeError)))
     = [Error_load JSONDecodeError] \<and>
   group_welcomes (load_group_welcomes Read (new_plugin None (Document (JValue (PInt 5))))) = PDict [] \<and>
   logged (load_group_welcomes Read (new_plugin None (Document (JValue (PInt 5)))))
     = [Error_load TypeError] \<and>
   group_welcomes (load_group_welcomes Read (new_plugin None
      (Document (JObject [(ascii ''100'', PStr (ascii ''Hi'')), (ascii ''100'', PInt 1)]))))
     = PDict [(ascii ''100'', PInt 1)]"
  using load_outcomes [of Read "new_plugin None Absent"]
        load_outcomes [of Read "new_plugin None (Corrupt JSONDecodeError)"]
        load_outcomes [of Read "new_plugin None (Document (JValue (PInt 5)))"]
        load_outcomes [of Read "new_plugin None
          (Document (JObject [(ascii ''100'', PStr (ascii ''Hi'')), (ascii ''100'', PInt 1)]))"]
  by (simp add: new_plugin_def dict_of_pairs_def)

text \<open>
  C5 as stated does not hold: line 54 assigns what \<^verbatim>\<open>json.load\<close> returns without looking at
  its type.  A file that holds \<^verbatim>\<open>[]\<close>, or an object with an entry that is a number, is not
  a mapping from strings to strings; the store is not emptied and no failure is logged.
\<close>

theorem load_counterexample:
  "group_welcomes (load_group_welcomes Read (new_plugin None (Document (JArray [])))) \<noteq> PDict [] \<and>
   logged (load_group_welcomes Read (new_plugin None (Document (JArray [])))) = [Info_loaded 0] \<and>
   group_welcomes (load_group_welcomes Read (new_plugin None
      (Document (JObject [(ascii ''100'', PInt 1)])))) \<noteq> PDict [] \<and>
   logged (load_group_welcomes Read (new_plugin None
      (Document (JObject [(ascii ''100'', PInt 1)])))) = [Info_loaded 1]"
  by (simp add: new_plugin_def load_group_welcomes_def log_to_def dict_of_pairs_def)

subsection \<open>The gates of the commands\<close>

text \<open>
  C6.  Both commands answer a call outside a group with the text of lines 114 and 145,
  whatever the role of the caller, and a call in a group by a caller whose role is not
  \<^verbatim>\<open>admin\<close> with the text of lines 119 and 150.  Neither changes the state, and the two
  texts differ.
\<close>

theorem commands_gated:
  "(get_group_id event = [] \<longrightarrow>
      set_welcome io self event message = ([Plain_result msg_group_only], self) \<and>
      view_welcome self event = ([Plain_result msg_group_only], self)) \<and>
   (get_group_id event \<noteq> [] \<and> role event \<noteq> ascii ''admin'' \<longrightarrow>
      set_welcome io self event message = ([Plain_result msg_denied], self) \<and>
      view_welcome self event = ([Plain_result msg_denied], self)) \<and>
   msg_group_only \<noteq> msg_denied"
  by (simp add: set_welcome_def view_welcome_def replies_differ)

theorem commands_gated_witness:
  "set_welcome Written (installed None) (command_event [] (ascii ''member'')) (ascii ''Hi'')
     = ([Plain_result msg_group_only], installed None) \<and>
   view_welcome (installed None) (command_event [] (ascii ''member''))
     = ([Plain_result msg_group_only], installed None) \<and>
   set_welcome Written (installed None) (command_event (ascii ''100'') (ascii ''member'')) (ascii ''Hi'')
     = ([Plain_result msg_denied], installed None) \<and>
   view_welcome (installed None) (command_event (ascii ''100'') (ascii ''member''))
     = ([Plain_result msg_denied], installed None)"
  using commands_gated [of "command_event [] (ascii ''member'')" Written "installed None" "ascii ''Hi''"]
        commands_gated [of "command_event (ascii ''100'') (ascii ''member'')" Written "installed None" "ascii ''Hi''"]
  by (simp add: command_event_def)

subsection \<open>Events of another shape\<close>

text \<open>
  C7, as amended.  An event that fails a test of the handler (the payload is missing,
  empty or no dict, \<^verbatim>\<open>post_type\<close> or \<^verbatim>\<open>notice_type\<close> is another, \<^verbatim>\<open>str(group_id)\<close> is empty,
  \<^verbatim>\<open>int(user_id)\<close> is zero or raises) is not of the shape of section 4.2, gets no reply and
  leaves the store, the file and the default message as they were; at most the exception
  that \<^verbatim>\<open>int\<close> raised on the member identifier is logged (line 105).
\<close>

theorem other_events_ignored:
  assumes "join_shape event = None"
  shows "spec_join_shape event = None \<and>
         fst (handle_group_increase self event) = [] \<and>
         group_welcomes (snd (handle_group_increase self event)) = group_welcomes self \<and>
         data_file (snd (handle_group_increase self event)) = data_file self \<and>
         default_message (snd (handle_group_increase self event)) = default_message self \<and>
         (logged (snd (handle_group_increase self event)) = logged self \<or>
          (\<exists>e. logged (snd (handle_group_increase self event)) = logged self @ [Error_join e]))"
proof -
  from join_other [OF assms, of self]
  have "logged (snd (handle_group_increase self event)) = logged self \<or>
        (\<exists>e. logged (snd (handle_group_increase self event)) = logged self @ [Error_join e])"
    by auto
  with join_other [OF assms, of self] not_welcomed_not_spec_shape [OF assms]
  show ?thesis by (simp add: join_frame)
qed

theorem other_events_ignored_witness:
  "join_shape (command_event (ascii ''100'') (ascii ''admin'')) = None \<and>
   join_shape (join_notice (PInt 100) (PInt 0)) = None \<and>
   join_shape (join_notice (PStr []) (PInt 12345)) = None \<and>
   join_shape (join_notice (PInt 100) (PStr (ascii ''abc''))) = None \<and>
   fst (handle_group_increase (installed None) (command_event (ascii ''100'') (ascii ''admin''))) = [] \<and>
   fst (handle_group_increase (installed None) (join_notice (PInt 100) (PInt 0))) = [] \<and>
   fst (handle_group_increase (installed None) (join_notice (PStr []) (PInt 12345))) = [] \<and>
   fst (handle_group_increase (installed None) (join_notice (PInt 100) (PStr (ascii ''abc'')))) = [] \<and>
   group_welcomes (snd (handle_group_increase (installed None)
      (join_notice (PInt 100) (PStr (ascii ''abc''))))) = PDict [] \<and>
   data_file (snd (handle_group_increase (installed None)
      (join_notice (PInt 100) (PStr (ascii ''abc''))))) = Absent"
proof -
  have a: "join_shape (command_event (ascii ''100'') (ascii ''admin'')) = None"
    by (simp add: join_shape_def command_event_def)
  have b: "join_shape (join_notice (PInt 100) (PInt 0)) = None"
    by (simp add: join_eval)
  have c: "join_shape (join_notice (PStr []) (PInt 12345)) = None"
    by (simp add: join_eval)
  have d: "join_shape (join_notice (PInt 100) (PStr (ascii ''abc''))) = None"
    by (simp add: join_eval int_of_str_def int_space_def digit_value_def decimal_zeros_def)
  from other_events_ignored [OF a, of "installed None"]
       other_events_ignored [OF b, of "installed None"]
       other_events_ignored [OF c, of "installed None"]
       other_events_ignored [OF d, of "installed None"] a b c d
  show ?thesis by (simp add: installed_def new_plugin_def)
qed

text \<open>
  C7 as stated does not hold: the tests of lines 86-89 come after \<^verbatim>\<open>str\<close> and \<^verbatim>\<open>int\<close>.  A
  notice whose \<^verbatim>\<open>group_id\<close> is null carries no group identifier, yet \<^verbatim>\<open>str\<close> makes the text
  \<^verbatim>\<open>None\<close> of it and the member is welcomed; a notice whose \<^verbatim>\<open>user_id\<close> is \<^verbatim>\<open>true\<close> carries no
  member identifier, yet \<^verbatim>\<open>int\<close> makes 1 of it and member 1 is welcomed.
\<close>

theorem other_events_counterexample:
  "spec_join_shape (join_notice PNone (PInt 12345)) = None \<and>
   fst (handle_group_increase (installed None) (join_notice PNone (PInt 12345)))
     = [Chain_result [At 12345, Plain (32 # default_default_message)]] \<and>
   spec_join_shape (join_notice (PStr (ascii ''100'')) (PBool True)) = None \<and>
   fst (handle_group_increase (installed None) (join_notice (PStr (ascii ''100'')) (PBool True)))
     = [Chain_result [At 1, Plain (32 # default_default_message)]]"
  by (simp add: spec_join_shape_def join_notice_def handle_group_increase_def get_welcome_def
        dict_get_def installed_def new_plugin_def log_to_def)

subsection \<open>Invariants of a run\<close>

text \<open>
  C8.  In every state of a run the store is a dict, no key occurs twice in it, and every
  entry is a string that is not empty.  The store may be empty, as it is after the
  installation.
\<close>

theorem store_invariant:
  assumes "self = run acts (installed config)"
  shows "\<exists>d. group_welcomes self = PDict d \<and> distinct (map fst d) \<and>
           (\<forall>k v. (k, v) \<in> set d \<longrightarrow> (\<exists>s. v = PStr s \<and> s \<noteq> []))"
proof -
  from installed_ok [of acts config] assms obtain d
    where d: "group_welcomes self = PDict d" and ok: "entries_ok d"
    by (cases "group_welcomes self") auto
  have "\<exists>s. v = PStr s \<and> s \<noteq> []" if "(k, v) \<in> set d" for k v
  proof -
    from ok that have "nonempty_text v" by (auto simp: entries_ok_def list_all_iff)
    then show ?thesis by (cases v) auto
  qed
  with d ok show ?thesis by (auto simp: entries_ok_def)
qed

theorem store_invariant_witness:
  "group_welcomes (run [] (installed None)) = PDict [] \<and>
   group_welcomes
     (run [Initialize True Read,
           Set_welcome Written (command_event (ascii ''100'') (ascii ''admin'')) (ascii ''Hi''),
           Set_welcome (Open_fails OSError) (command_event (ascii ''100'') (ascii ''admin'')) (ascii ''Hello''),
           Set_welcome Written (command_event (ascii ''100'') (ascii ''admin'')) [],
           Restart None, Initialize True Read]
        (installed None))
     = PDict [(ascii ''100'', PStr (ascii ''Hi''))] \<and>
   distinct (map fst [(ascii ''100'', PStr (ascii ''Hi''))])"
proof -
  let ?acts = "[Initialize True Read,
           Set_welcome Written (command_event (ascii ''100'') (ascii ''admin'')) (ascii ''Hi''),
           Set_welcome (Open_fails OSError) (command_event (ascii ''100'') (ascii ''admin'')) (ascii ''Hello''),
           Set_welcome Written (command_event (ascii ''100'') (ascii ''admin'')) [],
           Restart None, Initialize True Read]"
  have e: "group_welcomes (run ?acts (installed None)) = PDict [(ascii ''100'', PStr (ascii ''Hi''))]"
    by (simp add: run_eval)
  have n: "group_welcomes (run [] (installed None)) = PDict []"
    by (simp add: run_eval)
  from store_invariant [OF refl, of ?acts None] e n show ?thesis by simp
qed

text \<open>
  C9.  In every state of a run the lookup returns a value for every group.  It returns
  the default message for a group that no command of the run has set, and for a group
  that is not a key of the store.
\<close>

theorem get_welcome_default:
  assumes "self = run acts (installed config)"
  shows "(\<exists>v. get_welcome self g = Inr v) \<and>
         ((\<forall>a\<in>set acts. \<not> sets_group g a) \<longrightarrow>
            get_welcome self g = Inr (PStr (default_message self))) \<and>
         (g \<notin> store_keys (group_welcomes self) \<longrightarrow>
            get_welcome self g = Inr (PStr (default_message self)))"
proof -
  from installed_ok [of acts config] assms obtain d where d: "group_welcomes self = PDict d"
    by (cases "group_welcomes self") auto
  then have total: "\<exists>v. get_welcome self g = Inr v" by (simp add: get_welcome_def)
  have absent: "get_welcome self g = Inr (PStr (default_message self))"
    if "g \<notin> store_keys (group_welcomes self)"
    using that d by (simp add: get_welcome_absent)
  have "g \<notin> store_keys (group_welcomes self)" if "\<forall>a\<in>set acts. \<not> sets_group g a"
    using run_keys [OF that, of "installed config"] assms
    by (simp add: installed_def new_plugin_def)
  with total absent show ?thesis by blast
qed

theorem get_welcome_default_witness:
  "get_welcome
     (run [Initialize True Read,
           Set_welcome Written (command_event (ascii ''100'') (ascii ''admin'')) (ascii ''Hi'')]
        (installed None))
     (ascii ''200'') = Inr (PStr default_default_message)"
proof -
  let ?acts = "[Initialize True Read,
      Set_welcome Written (command_event (ascii ''100'') (ascii ''admin'')) (ascii ''Hi'')]"
  have n: "\<forall>a\<in>set ?acts. \<not> sets_group (ascii ''200'') a"
    by (simp add: command_event_def)
  have d: "default_message (run ?acts (installed None)) = default_default_message"
    by (simp add: run_eval)
  from get_welcome_default [OF refl, of ?acts None "ascii ''200''"] n d
  show ?thesis by simp
qed

text \<open>
  C10.  In every state of a run, a command that passes the two gates with a text that is
  not blank stores the text and answers with the confirmation of line 131, whatever the
  file system does with the write: the reply and the store do not depend on \<open>io\<close>, and a
  failed write is in the log.
\<close>

theorem set_welcome_despite_write_failure:
  assumes "self = run acts (installed config)"
    and "get_group_id event \<noteq> []" and "role event = ascii ''admin''"
    and "strip message \<noteq> []"
  shows "\<exists>d. group_welcomes self = PDict d \<and>
           fst (set_welcome io self event message) = [Plain_result (msg_set_ok @ message)] \<and>
           group_welcomes (snd (set_welcome io self event message))
             = PDict (AList.update (get_group_id event) (PStr message) d) \<and>
           get_welcome (snd (set_welcome io self event message)) (get_group_id event)
             = Inr (PStr message) \<and>
           (\<forall>e. io = Open_fails e \<or> io = Write_fails e \<longrightarrow>
              Error_save e \<in> set (logged (snd (set_welcome io self event message))))"
proof -
  from installed_ok [of acts config] assms(1) obtain d where d: "group_welcomes self = PDict d"
    by (cases "group_welcomes self") auto
  have "fst (set_welcome io self event message) = [Plain_result (msg_set_ok @ message)]"
    using assms d by (simp add: set_welcome_accepts)
  moreover have "group_welcomes (snd (set_welcome io self event message))
      = PDict (AList.update (get_group_id event) (PStr message) d)"
    using assms d by (simp add: set_welcome_accepts save_frame)
  moreover have "get_welcome (snd (set_welcome io self event message)) (get_group_id event)
      = Inr (PStr message)"
    using assms(2-4) d by (rule get_welcome_after_set)
  moreover have "\<forall>e. io = Open_fails e \<or> io = Write_fails e \<longrightarrow>
      Error_save e \<in> set (logged (snd (set_welcome io self event message)))"
    using assms d by (auto simp: set_welcome_accepts save_group_welcomes_def)
  ultimately show ?thesis using d by simp
qed

theorem set_welcome_despite_write_failure_witness:
  "fst (set_welcome (Write_fails OSError) (run [Initialize True Read] (installed None))
          (command_event (ascii ''100'') (ascii ''admin'')) (ascii ''Hi there''))
     = [Plain_result (msg_set_ok @ ascii ''Hi there'')] \<and>
   group_welcomes (snd (set_welcome (Write_fails OSError) (run [Initialize True Read] (installed None))
          (command_event (ascii ''100'') (ascii ''admin'')) (ascii ''Hi there'')))
     = PDict [(ascii ''100'', PStr (ascii ''Hi there''))] \<and>
   Error_save OSError \<in> set (logged (snd (set_welcome (Write_fails OSError)
          (run [Initialize True Read] (installed None))
          (command_event (ascii ''100'') (ascii ''admin'')) (ascii ''Hi there''))))"
proof -
  have g: "get_group_id (command_event (ascii ''100'') (ascii ''admin'')) \<noteq> []"
    and r: "role (command_event (ascii ''100'') (ascii ''admin'')) = ascii ''admin''"
    by (simp_all add: command_event_def)
  have s: "strip (ascii ''Hi there'') \<noteq> []"
    by (simp add: strip_def py_isspace_def)
  have e: "group_welcomes (run [Initialize True Read] (installed None)) = PDict []"
    by (simp add: run_eval)
  from set_welcome_despite_write_failure [OF refl g r s, of "[Initialize True Read]" None
      "Write_fails OSError"] e
  show ?thesis by (simp add: command_event_def)
qed

end
